theory Spec2Isabelle
  imports Complex_Main "HOL-Library.Char_ord" "HOL-Library.List_Lexorder"
begin

section \<open>Python values used by the nowcasting pipeline\<close>

text \<open>
  The three scripts \<^verbatim>\<open>ml/train/dataset_builder.py\<close>, \<^verbatim>\<open>ml/train/train_unet.py\<close> and
  \<^verbatim>\<open>ml/infer/infer_server.py\<close> are embedded function by function.  Python \<^verbatim>\<open>float\<close>
  values are modelled as \<^typ>\<open>real\<close>: the arithmetic of the formulas is exact, IEEE
  rounding is not part of the model.  Python \<^verbatim>\<open>int\<close> is \<^typ>\<open>int\<close>.  A raised
  exception is the \<open>Inl\<close> branch of a sum.
\<close>

datatype py_error = IndexError | AttributeError | JSONDecodeError

type_synonym 'a result = "py_error + 'a"

text \<open>\<^verbatim>\<open>d.get(key, default)\<close> on a dictionary.\<close>

definition dict_get :: "('k \<rightharpoonup> 'v) \<Rightarrow> 'k \<Rightarrow> 'v \<Rightarrow> 'v" where
  "dict_get d key dflt = (case d key of None \<Rightarrow> dflt | Some v \<Rightarrow> v)"

text \<open>\<^verbatim>\<open>range(a, b)\<close>: the integers from \<open>a\<close> up to, but without, \<open>b\<close>.\<close>

definition py_range :: "int \<Rightarrow> int \<Rightarrow> int list" where
  "py_range a b = [a..b - 1]"

text \<open>
  \<^verbatim>\<open>xs[i]\<close>: a negative index counts from the end, an index outside
  \<open>-len(xs) .. len(xs) - 1\<close> raises \<^verbatim>\<open>IndexError\<close>.
\<close>

definition py_index :: "'a list \<Rightarrow> int \<Rightarrow> 'a result" where
  "py_index xs i =
     (if 0 \<le> i \<and> i < int (length xs) then Inr (xs ! nat i)
      else if - int (length xs) \<le> i \<and> i < 0 then Inr (xs ! nat (int (length xs) + i))
      else Inl IndexError)"

text \<open>
  \<^verbatim>\<open>xs[lo:hi]\<close>: a negative bound counts from the end, then both bounds are cut to
  \<open>0 .. len(xs)\<close>; a slice never raises.
\<close>

definition slice_bound :: "nat \<Rightarrow> int \<Rightarrow> nat" where
  "slice_bound n i = (if i < 0 then nat (max 0 (int n + i)) else min n (nat i))"

definition py_slice :: "'a list \<Rightarrow> int \<Rightarrow> int \<Rightarrow> 'a list" where
  "py_slice xs lo hi =
     (let l = slice_bound (length xs) lo; h = slice_bound (length xs) hi
      in take (h - l) (drop l xs))"

section \<open>Data model\<close>

text \<open>
  A telemetry point is a JSON object with an optional timestamp and five optional
  sub-objects, each a dictionary from field names to numbers.
\<close>

type_synonym group = "string \<rightharpoonup> real"

record TelemetryPoint =
  timestamp :: "string option"
  solarWind :: "group option"
  magneticField :: "group option"
  electricField :: "group option"
  coupling :: "group option"
  indices :: "group option"

text \<open>\<^verbatim>\<open>point.get("solarWind", {})\<close> and its siblings: an absent group reads as \<^verbatim>\<open>{}\<close>.\<close>

definition group_get :: "group option \<Rightarrow> group" where
  "group_get g = (case g of None \<Rightarrow> Map.empty | Some d \<Rightarrow> d)"

text \<open>The empty dictionary \<^verbatim>\<open>{}\<close> read as a telemetry point.\<close>

definition empty_point :: TelemetryPoint where
  "empty_point = \<lparr>timestamp = None, solarWind = None, magneticField = None,
     electricField = None, coupling = None, indices = None\<rparr>"

record WindowExample =
  ex_x :: "real list list"
  ex_y :: "real list"
  ex_timestamp :: string

section \<open>Feature codec (dataset\_builder.py)\<close>

definition feature_vector :: "TelemetryPoint \<Rightarrow> real list" where
  "feature_vector point =
     (let sw = group_get (solarWind point);
          b = group_get (magneticField point);
          e = group_get (electricField point);
          c = group_get (coupling point);
          i = group_get (indices point)
      in [dict_get sw ''speed'' 0.0,
          dict_get sw ''density'' 0.0,
          dict_get b ''x'' 0.0,
          dict_get b ''y'' 0.0,
          dict_get b ''z'' 0.0,
          dict_get b ''bt'' 0.0,
          dict_get e ''ey'' 0.0,
          dict_get c ''newell'' 0.0,
          dict_get c ''epsilon'' 0.0,
          dict_get i ''kp'' 0.0,
          dict_get i ''dst'' 0.0])"

definition target_vector :: "TelemetryPoint \<Rightarrow> real list" where
  "target_vector point =
     (let i = group_get (indices point);
          kp = dict_get i ''kp'' 0.0;
          dst = dict_get i ''dst'' 0.0;
          perturb = max 0.0 (kp * 10.0 - dst * 0.1);
          aurora = min 1.0 (max 0.0 (kp / 9.0 + max 0.0 (- dst) / 400.0))
      in [perturb, aurora])"

section \<open>Window builder (dataset\_builder.py)\<close>

text \<open>\<^verbatim>\<open>future.get("timestamp", "")\<close>.\<close>

definition timestamp_or_empty :: "TelemetryPoint \<Rightarrow> string" where
  "timestamp_or_empty point = (case timestamp point of None \<Rightarrow> '''' | Some t \<Rightarrow> t)"

text \<open>
  The \<^verbatim>\<open>for end in range(...)\<close> loop of \<^verbatim>\<open>build_examples\<close>: the ends still to visit and
  the list \<open>examples\<close> built so far.  The slice cannot raise, the index can.
\<close>

fun build_examples_loop ::
  "TelemetryPoint list \<Rightarrow> int \<Rightarrow> int \<Rightarrow> int list \<Rightarrow> WindowExample list
     \<Rightarrow> WindowExample list result" where
  "build_examples_loop points input_steps horizon_steps [] examples = Inr examples"
| "build_examples_loop points input_steps horizon_steps (end_i # rest) examples =
     (let ctx = py_slice points (end_i - input_steps) end_i
      in case py_index points (end_i + horizon_steps - 1) of
           Inl err \<Rightarrow> Inl err
         | Inr future \<Rightarrow>
             (let x = map feature_vector ctx;
                  y = target_vector future
              in build_examples_loop points input_steps horizon_steps rest
                   (examples @ [\<lparr>ex_x = x, ex_y = y,
                                 ex_timestamp = timestamp_or_empty future\<rparr>])))"

definition build_examples ::
  "TelemetryPoint list \<Rightarrow> int \<Rightarrow> int \<Rightarrow> WindowExample list result" where
  "build_examples points input_steps horizon_steps =
     build_examples_loop points input_steps horizon_steps
       (py_range input_steps (int (length points) - horizon_steps)) []"

section \<open>Baseline trainer and model registry (train\_unet.py)\<close>

text \<open>
  \<^verbatim>\<open>line.strip()\<close> removes leading and trailing white space; on ASCII text the white
  space characters are the codes 9 to 13 and 28 to 32.
\<close>

definition is_space :: "char \<Rightarrow> bool" where
  "is_space c = ((9 \<le> (of_char c :: nat) \<and> (of_char c :: nat) \<le> 13)
                 \<or> (28 \<le> (of_char c :: nat) \<and> (of_char c :: nat) \<le> 32))"

definition strip :: "string \<Rightarrow> string" where
  "strip s = rev (dropWhile is_space (rev (dropWhile is_space s)))"

text \<open>
  A dataset file is its list of lines, \<open>None\<close> when the path does not exist.
  \<^verbatim>\<open>json.loads\<close> is a parameter \<open>loads\<close>: it returns the parsed row or raises.
\<close>

fun load_jsonl_loop ::
  "(string \<Rightarrow> 'row result) \<Rightarrow> string list \<Rightarrow> 'row list \<Rightarrow> 'row list result" where
  "load_jsonl_loop loads [] rows = Inr rows"
| "load_jsonl_loop loads (line # rest) rows =
     (let line = strip line
      in if line = [] then load_jsonl_loop loads rest rows
         else case loads line of
                Inl err \<Rightarrow> Inl err
              | Inr row \<Rightarrow> load_jsonl_loop loads rest (rows @ [row]))"

definition load_jsonl ::
  "(string \<Rightarrow> 'row result) \<Rightarrow> string list option \<Rightarrow> 'row list result" where
  "load_jsonl loads file =
     (case file of None \<Rightarrow> Inr [] | Some lines \<Rightarrow> load_jsonl_loop loads lines [])"

record ModelMetrics =
  loss :: "real option"
  samples :: int
  message :: "string option"
  predict_mean :: "real list option"

text \<open>A list comprehension whose element expression can raise.\<close>

fun comprehension :: "('a \<Rightarrow> 'b result) \<Rightarrow> 'a list \<Rightarrow> 'b list result" where
  "comprehension f [] = Inr []"
| "comprehension f (a # as) =
     (case f a of
        Inl err \<Rightarrow> Inl err
      | Inr b \<Rightarrow> (case comprehension f as of Inl err \<Rightarrow> Inl err | Inr bs \<Rightarrow> Inr (b # bs)))"

text \<open>
  A row of the dataset file has the shape of a \<open>WindowExample\<close>; \<^verbatim>\<open>row["y"][0]\<close> and
  \<^verbatim>\<open>row["y"][1]\<close> raise when the target list is too short.
\<close>

definition baseline_train :: "WindowExample list \<Rightarrow> ModelMetrics result" where
  "baseline_train rows =
     (if rows = [] then
        Inr \<lparr>loss = None, samples = 0, message = Some ''No data'', predict_mean = None\<rparr>
      else
        case comprehension (\<lambda>row. py_index (ex_y row) 0) rows of
          Inl err \<Rightarrow> Inl err
        | Inr y0 \<Rightarrow>
           (case comprehension (\<lambda>row. py_index (ex_y row) 1) rows of
              Inl err \<Rightarrow> Inl err
            | Inr y1 \<Rightarrow>
               (let mean0 = sum_list y0 / real (length y0);
                    mean1 = sum_list y1 / real (length y1);
                    var0 = sum_list (map (\<lambda>v. (v - mean0) ^ 2) y0) / real (length y0);
                    var1 = sum_list (map (\<lambda>v. (v - mean1) ^ 2) y1) / real (length y1)
                in Inr \<lparr>loss = Some (sqrt (var0 + var1)),
                         samples = int (length rows),
                         message = None,
                         predict_mean = Some [mean0, mean1]\<rparr>)))"

text \<open>
  A point in time is a count of microseconds; \<^verbatim>\<open>isoformat()\<close> is not modelled, a
  rendered time stamp is the point in time itself.
\<close>

type_synonym datetime = int

record ModelRecord =
  version :: string
  trained_at :: datetime
  epochs :: int
  metrics :: ModelMetrics
  dataset :: string
  status :: string

text \<open>
  The registry file, by what \<^verbatim>\<open>json.loads\<close> makes of its text: no JSON at all, a JSON
  value that is not an object, or an object whose \<open>models\<close> key is absent, holds a
  list of records, or holds something else.  Other keys of the object are not modelled.
  The file itself is \<open>None\<close> when the path does not exist.
\<close>

datatype models_value = ModelsList "ModelRecord list" | NotAList

datatype registry_json = NonObject | Object "models_value option"

datatype file_text = NotJson | Json registry_json

text \<open>The read-or-default step of \<^verbatim>\<open>update_registry\<close> (the \<^verbatim>\<open>if registry_path.exists()\<close>).\<close>

definition read_registry :: "file_text option \<Rightarrow> registry_json result" where
  "read_registry file =
     (case file of
        None \<Rightarrow> Inr (Object (Some (ModelsList [])))
      | Some NotJson \<Rightarrow> Inl JSONDecodeError
      | Some (Json registry) \<Rightarrow> Inr registry)"

text \<open>
  \<^verbatim>\<open>update_registry\<close> returns the new state of the registry file.  \<^verbatim>\<open>setdefault\<close> exists
  on objects only and \<^verbatim>\<open>append\<close> on lists only; an exception leaves the file as it was.
  Creating the parent directory and the failures of the file system itself (permissions,
  a full disk) are outside the model.
\<close>

definition update_registry :: "file_text option \<Rightarrow> ModelRecord \<Rightarrow> file_text option result" where
  "update_registry file model_entry =
     (case read_registry file of
        Inl err \<Rightarrow> Inl err
      | Inr NonObject \<Rightarrow> Inl AttributeError
      | Inr (Object None) \<Rightarrow> Inr (Some (Json (Object (Some (ModelsList [model_entry])))))
      | Inr (Object (Some NotAList)) \<Rightarrow> Inl AttributeError
      | Inr (Object (Some (ModelsList ms))) \<Rightarrow>
          Inr (Some (Json (Object (Some (ModelsList (ms @ [model_entry])))))))"

text \<open>
  The train command.  The two files it touches are the state; the dataset path and the
  registry path name different files.  Its result is the new state and the record it
  prints.  The argument \<open>arg_dataset\<close> is the dataset path as \<^verbatim>\<open>str(Path(...))\<close> renders
  it, \<open>now\<close> is the reading of the clock.
\<close>

record train_args =
  arg_dataset :: string
  arg_registry :: string
  arg_model_version :: string
  arg_epochs :: int

record train_files =
  dataset_file :: "string list option"
  registry_file :: "file_text option"

definition train_main ::
  "(string \<Rightarrow> WindowExample result) \<Rightarrow> train_args \<Rightarrow> datetime \<Rightarrow> train_files
     \<Rightarrow> (train_files \<times> ModelRecord) result" where
  "train_main loads args now files =
     (case load_jsonl loads (dataset_file files) of
        Inl err \<Rightarrow> Inl err
      | Inr rows \<Rightarrow>
         (case baseline_train rows of
            Inl err \<Rightarrow> Inl err
          | Inr metrics_v \<Rightarrow>
             (let model_entry = \<lparr>version = arg_model_version args,
                                  trained_at = now,
                                  epochs = arg_epochs args,
                                  metrics = metrics_v,
                                  dataset = arg_dataset args,
                                  status = ''ready''\<rparr>
              in case update_registry (registry_file files) model_entry of
                   Inl err \<Rightarrow> Inl err
                 | Inr file' \<Rightarrow> Inr (files\<lparr>registry_file := file'\<rparr>, model_entry))))"

section \<open>Forecast engine (infer\_server.py)\<close>

definition MODEL_VERSION :: string where
  "MODEL_VERSION = ''unet-baseline-v1''"

record payload =
  horizonMinutes :: "int option"
  sequence :: "TelemetryPoint list option"

record Prediction =
  pred_timestamp :: datetime
  geomagneticPerturbation :: real
  auroraIntensity :: real
  confidence :: real

record Forecast =
  modelVersion :: string
  generatedAt :: datetime
  out_horizonMinutes :: int
  predictions :: "Prediction list"

text \<open>\<^verbatim>\<open>timedelta(minutes=m)\<close> in microseconds.\<close>

definition timedelta_minutes :: "int \<Rightarrow> int" where
  "timedelta_minutes m = m * 60000000"

text \<open>The \<^verbatim>\<open>for i in range(steps)\<close> loop of \<^verbatim>\<open>infer\<close>.\<close>

fun infer_loop ::
  "real \<Rightarrow> real \<Rightarrow> real \<Rightarrow> real \<Rightarrow> real \<Rightarrow> datetime \<Rightarrow> int list \<Rightarrow> Prediction list
     \<Rightarrow> Prediction list" where
  "infer_loop speed density bz kp newell now [] preds = preds"
| "infer_loop speed density bz kp newell now (i # rest) preds =
     (let minutes = (i + 1) * 5;
          driver = max 0.0 (- bz) * 0.45 + (speed - 350.0) * 0.004 + density * 0.05
                   + newell / 8000.0;
          perturb = kp * 8.0 + driver * 12.0;
          aurora = max 0.0 (min 1.0 ((kp / 9.0) * 0.7 + driver * 0.03))
      in infer_loop speed density bz kp newell now rest
           (preds @ [\<lparr>pred_timestamp = now + timedelta_minutes minutes,
                       geomagneticPerturbation = perturb,
                       auroraIntensity = aurora,
                       confidence = max 0.35 (min 0.95 (0.9 - real_of_int i * 0.02))\<rparr>]))"

definition infer :: "payload \<Rightarrow> datetime \<Rightarrow> Forecast" where
  "infer pl now =
     (let horizon = (case horizonMinutes pl of None \<Rightarrow> 60 | Some h \<Rightarrow> h);
          sequence_v = (case sequence pl of None \<Rightarrow> [] | Some ps \<Rightarrow> ps);
          latest = (if sequence_v \<noteq> [] then last sequence_v else empty_point);
          sw = group_get (solarWind latest);
          b = group_get (magneticField latest);
          idx = group_get (indices latest);
          coupling_v = group_get (coupling latest);
          speed = dict_get sw ''speed'' 400.0;
          density = dict_get sw ''density'' 5.0;
          bz = dict_get b ''z'' 0.0;
          kp = dict_get idx ''kp'' 2.0;
          newell = dict_get coupling_v ''newell'' 0.0;
          steps = max 1 (min 24 (horizon div 5))
      in \<lparr>modelVersion = MODEL_VERSION,
          generatedAt = now,
          out_horizonMinutes = horizon,
          predictions = infer_loop speed density bz kp newell now (py_range 0 steps) []\<rparr>)"

section \<open>Notions of the specification and abbreviations for the proofs\<close>

text \<open>
  The specification's \<open>clamp(v, lo, hi)\<close>, written from its words: \<open>v\<close> cut to the
  interval from \<open>lo\<close> to \<open>hi\<close>.
\<close>

definition clamp :: "'a::linorder \<Rightarrow> 'a \<Rightarrow> 'a \<Rightarrow> 'a" where
  "clamp v lo hi = (if v < lo then lo else if hi < v then hi else v)"

text \<open>
  The example that \<open>build_examples\<close> appends for one \<open>end\<close> whose future index is in
  range (an abbreviation used in the proofs).
\<close>

definition window_at :: "TelemetryPoint list \<Rightarrow> int \<Rightarrow> int \<Rightarrow> int \<Rightarrow> WindowExample" where
  "window_at points input_steps horizon_steps end_i =
     \<lparr>ex_x = map feature_vector (py_slice points (end_i - input_steps) end_i),
      ex_y = target_vector (points ! nat (end_i + horizon_steps - 1)),
      ex_timestamp = timestamp_or_empty (points ! nat (end_i + horizon_steps - 1))\<rparr>"

text \<open>A telemetry point that carries a timestamp and nothing else.\<close>

definition stamped_point :: "string \<Rightarrow> TelemetryPoint" where
  "stamped_point t = empty_point\<lparr>timestamp := Some t\<rparr>"

text \<open>
  The prediction that the loop of \<open>infer\<close> appends for step \<open>i\<close>, and the two values
  that \<open>infer\<close> reads from its payload (abbreviations used in the proofs).
\<close>

definition prediction_at ::
  "real \<Rightarrow> real \<Rightarrow> real \<Rightarrow> real \<Rightarrow> real \<Rightarrow> datetime \<Rightarrow> int \<Rightarrow> Prediction" where
  "prediction_at speed density bz kp newell now i =
     \<lparr>pred_timestamp = now + timedelta_minutes ((i + 1) * 5),
      geomagneticPerturbation =
        kp * 8 + (max 0 (- bz) * 0.45 + (speed - 350) * 0.004 + density * 0.05 + newell / 8000) * 12,
      auroraIntensity =
        max 0 (min 1 ((kp / 9) * 0.7
          + (max 0 (- bz) * 0.45 + (speed - 350) * 0.004 + density * 0.05 + newell / 8000) * 0.03)),
      confidence = max 0.35 (min 0.95 (0.9 - real_of_int i * 0.02))\<rparr>"

definition payload_latest :: "payload \<Rightarrow> TelemetryPoint" where
  "payload_latest pl =
     (case sequence pl of None \<Rightarrow> empty_point
      | Some ps \<Rightarrow> if ps \<noteq> [] then last ps else empty_point)"

definition payload_horizon :: "payload \<Rightarrow> int" where
  "payload_horizon pl = (case horizonMinutes pl of None \<Rightarrow> 60 | Some h \<Rightarrow> h)"

text \<open>
  The specification's all-default point, every numeric field present with the value
  0.0, and the point that carries the defaults \<open>infer\<close> itself falls back to.
\<close>

definition zero_point :: TelemetryPoint where
  "zero_point =
     \<lparr>timestamp = None,
      solarWind = Some [''speed'' \<mapsto> 0, ''density'' \<mapsto> 0],
      magneticField = Some [''x'' \<mapsto> 0, ''y'' \<mapsto> 0, ''z'' \<mapsto> 0, ''bt'' \<mapsto> 0],
      electricField = Some [''ey'' \<mapsto> 0],
      coupling = Some [''newell'' \<mapsto> 0, ''epsilon'' \<mapsto> 0],
      indices = Some [''kp'' \<mapsto> 0, ''dst'' \<mapsto> 0]\<rparr>"

definition infer_default_point :: TelemetryPoint where
  "infer_default_point =
     \<lparr>timestamp = None,
      solarWind = Some [''speed'' \<mapsto> 400, ''density'' \<mapsto> 5],
      magneticField = Some [''z'' \<mapsto> 0],
      electricField = None,
      coupling = Some [''newell'' \<mapsto> 0],
      indices = Some [''kp'' \<mapsto> 2]\<rparr>"



text \<open>
  The specification's invariant of the registry file: it is missing, or it holds a
  document \<open>{models: [...]}\<close>.
\<close>

fun registry_well_formed :: "file_text option \<Rightarrow> bool" where
  "registry_well_formed None = True"
| "registry_well_formed (Some (Json (Object (Some (ModelsList ms))))) = True"
| "registry_well_formed (Some other) = False"

text \<open>The document \<open>{models: ms}\<close> and the file that holds it.\<close>

definition registry_doc :: "ModelRecord list \<Rightarrow> registry_json" where
  "registry_doc ms = Object (Some (ModelsList ms))"

definition registry_holding :: "ModelRecord list \<Rightarrow> file_text option" where
  "registry_holding ms = Some (Json (registry_doc ms))"

text \<open>The metrics of the trainer for an empty dataset.\<close>

definition no_data_metrics :: ModelMetrics where
  "no_data_metrics =
     \<lparr>loss = None, samples = 0, message = Some ''No data'', predict_mean = None\<rparr>"

text \<open>A model record for the worked examples.\<close>

definition sample_record :: "string \<Rightarrow> ModelRecord" where
  "sample_record v = \<lparr>version = v, trained_at = 0, epochs = 20, metrics = no_data_metrics,
     dataset = ''ml/data/train_dataset.jsonl'', status = ''ready''\<rparr>"

section \<open>Properties of the feature codec\<close>

lemma clamp_min_max: "lo \<le> hi \<Longrightarrow> min hi (max lo v) = clamp v lo hi"
  by (auto simp: clamp_def min_def max_def)

lemma clamp_max_min: "lo \<le> hi \<Longrightarrow> max lo (min hi v) = clamp v lo hi"
  by (auto simp: clamp_def min_def max_def)

text \<open>
  Claim C5.  For every telemetry point, with \<open>kp\<close> and \<open>dst\<close> read from its
  \<open>indices\<close> group and taken as 0.0 when the field or the whole group is absent,
  \<open>target_vector\<close> returns the two-element list
  \<open>[max(0, kp*10 - dst*0.1), clamp(kp/9 + max(0, -dst)/400, 0, 1)]\<close>.  For the point
  \<open>{indices: {kp: 5, dst: -50}}\<close> this is \<open>[55, 5/9 + 0.125]\<close>, whose second
  component rounds to 0.6806.
\<close>

theorem C5_target_vector_formula:
  "target_vector point =
     [max 0 (dict_get (group_get (indices point)) ''kp'' 0 * 10
             - dict_get (group_get (indices point)) ''dst'' 0 * 0.1),
      clamp (dict_get (group_get (indices point)) ''kp'' 0 / 9
             + max 0 (- dict_get (group_get (indices point)) ''dst'' 0) / 400) 0 1]
   \<and> target_vector (empty_point\<lparr>indices := Some [''kp'' \<mapsto> 5, ''dst'' \<mapsto> - 50]\<rparr>)
       = [55, 5 / 9 + 0.125]
   \<and> \<bar>(5 / 9 + 0.125 :: real) - 0.6806\<bar> < 0.00005"
proof -
  have "target_vector (empty_point\<lparr>indices := Some [''kp'' \<mapsto> 5, ''dst'' \<mapsto> - 50]\<rparr>)
       = [55, 5 / 9 + 0.125]"
    by (simp add: target_vector_def group_get_def dict_get_def empty_point_def)
  moreover have "\<bar>(5 / 9 + 0.125 :: real) - 0.6806\<bar> < 0.00005"
    by simp
  moreover have "target_vector point =
     [max 0 (dict_get (group_get (indices point)) ''kp'' 0 * 10
             - dict_get (group_get (indices point)) ''dst'' 0 * 0.1),
      clamp (dict_get (group_get (indices point)) ''kp'' 0 / 9
             + max 0 (- dict_get (group_get (indices point)) ''dst'' 0) / 400) 0 1]"
    by (simp add: target_vector_def Let_def clamp_min_max)
  ultimately show ?thesis by blast
qed

section \<open>Properties of the window builder\<close>

lemma length_py_range: "length (py_range a b) = nat (b - a)"
  by (simp add: py_range_def)

lemma nth_py_range: "k < nat (b - a) \<Longrightarrow> py_range a b ! k = a + int k"
  by (simp add: py_range_def)

lemma set_py_range: "set (py_range a b) = {a..<b}"
  by (auto simp add: py_range_def)

lemma build_examples_loop_ok:
  "(\<And>e. e \<in> set ends \<Longrightarrow> 0 \<le> e + H - 1 \<and> e + H - 1 < int (length points)) \<Longrightarrow>
   build_examples_loop points I H ends acc = Inr (acc @ map (window_at points I H) ends)"
proof (induction ends arbitrary: acc)
  case Nil
  show ?case by simp
next
  case (Cons e ends)
  have idx: "py_index points (e + H - 1) = Inr (points ! nat (e + H - 1))"
    using Cons.prems[of e] by (simp add: py_index_def)
  have rest: "build_examples_loop points I H ends acc' = Inr (acc' @ map (window_at points I H) ends)" for acc'
    using Cons.IH Cons.prems by simp
  show ?case
    by (simp add: idx rest window_at_def Let_def)
qed

lemma build_examples_eq:
  assumes "0 < I" "0 < H"
  shows "build_examples points I H =
         Inr (map (window_at points I H) (py_range I (int (length points) - H)))"
proof -
  have "0 \<le> e + H - 1 \<and> e + H - 1 < int (length points)"
    if "e \<in> set (py_range I (int (length points) - H))" for e
    using that assms by (simp add: set_py_range)
  then show ?thesis
    unfolding build_examples_def by (simp add: build_examples_loop_ok)
qed

lemma py_slice_window:
  "0 \<le> a \<Longrightarrow> a \<le> b \<Longrightarrow> b \<le> int (length xs) \<Longrightarrow>
   py_slice xs a b = take (nat (b - a)) (drop (nat a) xs)"
  by (simp add: py_slice_def slice_bound_def Let_def min_def nat_diff_distrib)

lemma window_nth:
  assumes "0 < I" "0 < H" "k < nat (int (length points) - I - H)"
  shows "window_at points I H (I + int k) =
         \<lparr>ex_x = map feature_vector (take (nat I) (drop k points)),
          ex_y = target_vector (points ! (k + nat I + nat H - 1)),
          ex_timestamp = timestamp_or_empty (points ! (k + nat I + nat H - 1))\<rparr>"
proof -
  have sl: "py_slice points (I + int k - I) (I + int k) = take (nat I) (drop k points)"
    using assms by (simp add: py_slice_window)
  have ix: "nat (I + int k + H - 1) = k + nat I + nat H - 1"
    using assms by linarith
  show ?thesis
    by (simp only: window_at_def sl ix)
qed

text \<open>
  Claim C2, as amended.  For positive \<open>inputSteps = I\<close> and \<open>horizonSteps = H\<close>,
  \<open>build_examples\<close> returns without an error one example per \<open>end\<close> in
  \<open>[I, len(points) - H)\<close>, in increasing \<open>end\<close> order: example number \<open>k\<close> belongs to
  \<open>end = I + k\<close>, its \<open>x\<close> is the list of feature vectors of
  \<open>points[end-I : end]\<close> (the \<open>I\<close> points from position \<open>k\<close> on), its \<open>y\<close> is the
  target vector of \<open>points[end+H-1]\<close> and its timestamp is that point's timestamp
  (the empty string when absent).  If the timestamps of the input points are
  non-decreasing, so are the timestamps of the examples.
\<close>

theorem C2_windows:
  assumes "0 < I" "0 < H"
  shows "\<exists>exs. build_examples points I H = Inr exs
           \<and> length exs = nat (int (length points) - I - H)
           \<and> (\<forall>k < length exs.
                 exs ! k =
                   \<lparr>ex_x = map feature_vector (take (nat I) (drop k points)),
                    ex_y = target_vector (points ! (k + nat I + nat H - 1)),
                    ex_timestamp = timestamp_or_empty (points ! (k + nat I + nat H - 1))\<rparr>)
           \<and> (sorted (map timestamp_or_empty points) \<longrightarrow> sorted (map ex_timestamp exs))"
proof -
  let ?n = "nat (int (length points) - I - H)"
  let ?exs = "map (window_at points I H) (py_range I (int (length points) - H))"
  have run: "build_examples points I H = Inr ?exs"
    using assms by (rule build_examples_eq)
  have len: "length ?exs = ?n"
    by (simp add: length_py_range algebra_simps)
  have nth: "?exs ! k =
        \<lparr>ex_x = map feature_vector (take (nat I) (drop k points)),
         ex_y = target_vector (points ! (k + nat I + nat H - 1)),
         ex_timestamp = timestamp_or_empty (points ! (k + nat I + nat H - 1))\<rparr>"
    if "k < ?n" for k
  proof -
    have "k < nat (int (length points) - H - I)" using that by (simp add: algebra_simps)
    then have "?exs ! k = window_at points I H (I + int k)"
      by (simp add: length_py_range nth_py_range)
    then show ?thesis using window_nth[OF assms that] by simp
  qed
  have srt: "sorted (map ex_timestamp ?exs)" if s: "sorted (map timestamp_or_empty points)"
  proof -
    have "map ex_timestamp ?exs ! i \<le> map ex_timestamp ?exs ! j"
      if "i \<le> j" "j < length (map ex_timestamp ?exs)" for i j
    proof -
      have j: "j < ?n" and i: "i < ?n" using that len by simp_all
      have bound: "j + nat I + nat H - 1 < length points" using j assms by linarith
      have "map timestamp_or_empty points ! (i + nat I + nat H - 1)
            \<le> map timestamp_or_empty points ! (j + nat I + nat H - 1)"
        using s that(1) bound by (intro sorted_nth_mono) simp_all
      moreover have "i + nat I + nat H - 1 < length points" using bound that(1) by linarith
      ultimately show ?thesis
        using bound i j len by (simp add: nth[OF i] nth[OF j] del: map_map)
    qed
    then show ?thesis by (simp only: sorted_iff_nth_mono) blast
  qed
  show ?thesis
    using run len nth srt by (intro exI[of _ ?exs]) simp
qed

text \<open>
  One run of the amended claim C2: four points in chronological order, \<open>I = H = 1\<close>.
\<close>

theorem C2_windows_witness:
  "\<exists>exs. build_examples [stamped_point ''2024-01-01'', stamped_point ''2024-01-02'',
                           stamped_point ''2024-01-03'', stamped_point ''2024-01-04''] 1 1
            = Inr exs
         \<and> length exs = 2
         \<and> exs ! 0 = \<lparr>ex_x = [[0,0,0,0,0,0,0,0,0,0,0]], ex_y = [0, 0],
                        ex_timestamp = ''2024-01-02''\<rparr>
         \<and> sorted (map ex_timestamp exs)"
  using C2_windows [of 1 1 "[stamped_point ''2024-01-01'', stamped_point ''2024-01-02'',
                           stamped_point ''2024-01-03'', stamped_point ''2024-01-04'']"]
  by (auto simp add: stamped_point_def empty_point_def feature_vector_def target_vector_def
      group_get_def dict_get_def timestamp_or_empty_def)

text \<open>
  Claim C2 as stated fails: the builder keeps the order of its input and does not look
  at the timestamps, so points that are out of chronological order give examples
  whose timestamps decrease.
\<close>

theorem C2_counterexample:
  "build_examples [stamped_point ''2024-01-01'', stamped_point ''2024-01-03'', stamped_point ''2024-01-02'',
                   stamped_point ''2024-01-04''] 1 1
     = Inr [\<lparr>ex_x = [[0,0,0,0,0,0,0,0,0,0,0]], ex_y = [0, 0], ex_timestamp = ''2024-01-03''\<rparr>,
            \<lparr>ex_x = [[0,0,0,0,0,0,0,0,0,0,0]], ex_y = [0, 0], ex_timestamp = ''2024-01-02''\<rparr>]
   \<and> \<not> sorted [''2024-01-03'', ''2024-01-02'' :: string]"
  by (simp add: build_examples_def py_range_def upto.simps py_slice_def slice_bound_def
      py_index_def stamped_point_def empty_point_def feature_vector_def target_vector_def
      group_get_def dict_get_def timestamp_or_empty_def)

text \<open>
  Claim C3.  For a list of \<open>N\<close> points and positive \<open>I\<close> and \<open>H\<close>,
  \<open>build_examples\<close> returns, without raising, exactly \<open>max(0, N - I - H)\<close> examples;
  when \<open>N \<le> I + H\<close> the result is the empty list.
\<close>

theorem C3_window_count:
  assumes "0 < I" "0 < H"
  shows "\<exists>exs. build_examples points I H = Inr exs
           \<and> int (length exs) = max 0 (int (length points) - I - H)
           \<and> (int (length points) \<le> I + H \<longrightarrow> exs = [])"
proof -
  let ?exs = "map (window_at points I H) (py_range I (int (length points) - H))"
  have "build_examples points I H = Inr ?exs"
    using assms by (rule build_examples_eq)
  moreover have "int (length ?exs) = max 0 (int (length points) - I - H)"
    by (simp add: length_py_range)
  moreover have "int (length points) \<le> I + H \<longrightarrow> ?exs = []"
    by (simp add: py_range_def)
  ultimately show ?thesis by blast
qed



theorem C3_window_count_witness:
  "(\<exists>exs. build_examples [stamped_point ''a'', stamped_point ''b'', stamped_point ''c'',
                           stamped_point ''d'', stamped_point ''e''] 2 1 = Inr exs
          \<and> int (length exs) = 2)
   \<and> build_examples [stamped_point ''a'', stamped_point ''b'', stamped_point ''c''] 2 1 = Inr []"
  using C3_window_count [of 2 1 "[stamped_point ''a'', stamped_point ''b'', stamped_point ''c'',
                                 stamped_point ''d'', stamped_point ''e'']"]
        C3_window_count [of 2 1 "[stamped_point ''a'', stamped_point ''b'', stamped_point ''c'']"]
  by auto

section \<open>Properties of the forecast engine\<close>

lemma infer_loop_map:
  "infer_loop speed density bz kp newell now steps acc =
     acc @ map (prediction_at speed density bz kp newell now) steps"
  by (induction steps arbitrary: acc) (simp_all add: prediction_at_def Let_def)

lemma infer_predictions:
  "predictions (infer pl now) =
     map (prediction_at
            (dict_get (group_get (solarWind (payload_latest pl))) ''speed'' 400)
            (dict_get (group_get (solarWind (payload_latest pl))) ''density'' 5)
            (dict_get (group_get (magneticField (payload_latest pl))) ''z'' 0)
            (dict_get (group_get (indices (payload_latest pl))) ''kp'' 2)
            (dict_get (group_get (coupling (payload_latest pl))) ''newell'' 0)
            now)
         (py_range 0 (max 1 (min 24 (payload_horizon pl div 5))))"
  by (simp add: infer_def Let_def infer_loop_map payload_latest_def payload_horizon_def
      split: option.split)

lemma length_infer_predictions:
  "length (predictions (infer pl now)) = nat (max 1 (min 24 (payload_horizon pl div 5)))"
  by (simp add: infer_predictions length_py_range)

text \<open>
  Claim C6.  For every integer \<open>horizonMinutes\<close> the forecast holds exactly
  \<open>clamp(horizonMinutes // 5, 1, 24)\<close> predictions: 12 for 60, 24 for 1000, and
  between 1 and 24 for every input, zero and negative ones included.
\<close>

theorem C6_forecast_step_count:
  "length (predictions (infer \<lparr>horizonMinutes = Some h, sequence = s\<rparr> now))
     = nat (clamp (h div 5) 1 24)
   \<and> length (predictions (infer \<lparr>horizonMinutes = Some 60, sequence = s\<rparr> now)) = 12
   \<and> length (predictions (infer \<lparr>horizonMinutes = Some 1000, sequence = s\<rparr> now)) = 24
   \<and> 1 \<le> length (predictions (infer \<lparr>horizonMinutes = Some h, sequence = s\<rparr> now))
   \<and> length (predictions (infer \<lparr>horizonMinutes = Some h, sequence = s\<rparr> now)) \<le> 24"
proof -
  have len: "length (predictions (infer \<lparr>horizonMinutes = Some k, sequence = s\<rparr> now))
               = nat (clamp (k div 5) 1 24)" for k
    by (simp add: length_infer_predictions payload_horizon_def clamp_max_min)
  have "clamp ((60::int) div 5) 1 24 = 12" and "clamp ((1000::int) div 5) 1 24 = 24"
    by (simp_all add: clamp_def)
  moreover have "1 \<le> clamp (h div 5) 1 24" and "clamp (h div 5) 1 24 \<le> 24"
    by (simp_all add: clamp_def)
  ultimately show ?thesis
    by (simp add: len) linarith
qed

lemma nth_infer_predictions:
  assumes "i < length (predictions (infer pl now))"
  shows "predictions (infer pl now) ! i =
     prediction_at
            (dict_get (group_get (solarWind (payload_latest pl))) ''speed'' 400)
            (dict_get (group_get (solarWind (payload_latest pl))) ''density'' 5)
            (dict_get (group_get (magneticField (payload_latest pl))) ''z'' 0)
            (dict_get (group_get (indices (payload_latest pl))) ''kp'' 2)
            (dict_get (group_get (coupling (payload_latest pl))) ''newell'' 0)
            now (int i)"
proof -
  have "i < nat (max 1 (min 24 (payload_horizon pl div 5)) - 0)"
    using assms by (simp add: length_infer_predictions)
  then show ?thesis
    by (simp add: infer_predictions length_py_range nth_py_range)
qed

text \<open>
  Claim C7.  In every forecast of \<open>infer\<close>, prediction \<open>i\<close> has confidence
  \<open>clamp(0.9 - i*0.02, 0.35, 0.95)\<close>; every confidence lies in \<open>[0.35, 0.95]\<close> and
  the confidence of a prediction is at least that of the next one.
\<close>

theorem C7_confidence:
  "\<forall>i < length (predictions (infer pl now)).
      confidence (predictions (infer pl now) ! i) = clamp (0.9 - real i * 0.02) 0.35 0.95
    \<and> 0.35 \<le> confidence (predictions (infer pl now) ! i)
    \<and> confidence (predictions (infer pl now) ! i) \<le> 0.95
    \<and> (Suc i < length (predictions (infer pl now)) \<longrightarrow>
         confidence (predictions (infer pl now) ! Suc i)
           \<le> confidence (predictions (infer pl now) ! i))"
proof (intro allI impI)
  fix i assume i: "i < length (predictions (infer pl now))"
  have c: "confidence (predictions (infer pl now) ! j) = clamp (0.9 - real j * 0.02) 0.35 0.95"
    if "j < length (predictions (infer pl now))" for j
    using that by (simp add: nth_infer_predictions prediction_at_def clamp_def)
  have mono: "clamp (0.9 - real (Suc i) * 0.02) 0.35 0.95 \<le> clamp (0.9 - real i * 0.02) (0.35::real) 0.95"
    by (simp add: clamp_def)
  have rng: "0.35 \<le> clamp (0.9 - real i * 0.02) (0.35::real) 0.95 \<and> clamp (0.9 - real i * 0.02) (0.35::real) 0.95 \<le> 0.95"
    by (simp add: clamp_def)
  show "confidence (predictions (infer pl now) ! i) = clamp (0.9 - real i * 0.02) 0.35 0.95
    \<and> 0.35 \<le> confidence (predictions (infer pl now) ! i)
    \<and> confidence (predictions (infer pl now) ! i) \<le> 0.95
    \<and> (Suc i < length (predictions (infer pl now)) \<longrightarrow>
         confidence (predictions (infer pl now) ! Suc i)
           \<le> confidence (predictions (infer pl now) ! i))"
    using c[OF i] c[of "Suc i"] mono rng by simp
qed

text \<open>
  Claim C9.  In every forecast of \<open>infer\<close>, any two predictions carry the same
  \<open>geomagneticPerturbation\<close> and the same \<open>auroraIntensity\<close>: neither depends on
  the step index.
\<close>

theorem C9_same_values:
  "\<forall>i < length (predictions (infer pl now)). \<forall>j < length (predictions (infer pl now)).
      geomagneticPerturbation (predictions (infer pl now) ! i)
        = geomagneticPerturbation (predictions (infer pl now) ! j)
    \<and> auroraIntensity (predictions (infer pl now) ! i)
        = auroraIntensity (predictions (infer pl now) ! j)"
  by (simp add: nth_infer_predictions prediction_at_def)


text \<open>One run of claim C7: a horizon of 20 minutes, four predictions.\<close>

theorem C7_confidence_witness:
  "confidence (predictions (infer \<lparr>horizonMinutes = Some 20, sequence = Some []\<rparr> 0) ! 1) = 0.88
   \<and> confidence (predictions (infer \<lparr>horizonMinutes = Some 20, sequence = Some []\<rparr> 0) ! 2)
        \<le> confidence (predictions (infer \<lparr>horizonMinutes = Some 20, sequence = Some []\<rparr> 0) ! 1)"
proof -
  have len: "length (predictions (infer \<lparr>horizonMinutes = Some 20, sequence = Some []\<rparr> 0)) = 4"
    by (simp add: length_infer_predictions payload_horizon_def)
  show ?thesis
    using C7_confidence [of "\<lparr>horizonMinutes = Some 20, sequence = Some []\<rparr>" 0, rule_format, of 1]
    by (simp add: len clamp_def numeral_2_eq_2)
qed

text \<open>One run of claim C9: the first and the last of four predictions.\<close>

theorem C9_same_values_witness:
  "geomagneticPerturbation (predictions (infer \<lparr>horizonMinutes = Some 20, sequence = Some []\<rparr> 0) ! 0)
     = geomagneticPerturbation (predictions (infer \<lparr>horizonMinutes = Some 20, sequence = Some []\<rparr> 0) ! 3)
   \<and> auroraIntensity (predictions (infer \<lparr>horizonMinutes = Some 20, sequence = Some []\<rparr> 0) ! 0)
     = auroraIntensity (predictions (infer \<lparr>horizonMinutes = Some 20, sequence = Some []\<rparr> 0) ! 3)"
proof -
  have len: "length (predictions (infer \<lparr>horizonMinutes = Some 20, sequence = Some []\<rparr> 0)) = 4"
    by (simp add: length_infer_predictions payload_horizon_def)
  show ?thesis
    using C9_same_values [of "\<lparr>horizonMinutes = Some 20, sequence = Some []\<rparr>" 0, rule_format, of 0 3]
    by (simp add: len)
qed

text \<open>
  Claim C1, as amended.  For every \<open>horizonMinutes\<close> (absent or an integer) and every
  call time \<open>now\<close>, \<open>infer\<close> on an empty telemetry sequence returns a forecast with at
  least one prediction, and that forecast is the one computed from the point that
  carries the defaults of \<open>infer\<close> itself: speed 400.0, density 5.0, bz 0.0, kp 2.0 and
  newell 0.0.  So every prediction has perturbation 21.4 and aurora intensity
  3043/18000.
\<close>

theorem C1_empty_sequence_defaults:
  "infer \<lparr>horizonMinutes = h, sequence = Some []\<rparr> now
     = infer \<lparr>horizonMinutes = h, sequence = Some [infer_default_point]\<rparr> now
   \<and> predictions (infer \<lparr>horizonMinutes = h, sequence = Some []\<rparr> now) \<noteq> []
   \<and> (\<forall>p \<in> set (predictions (infer \<lparr>horizonMinutes = h, sequence = Some []\<rparr> now)).
         geomagneticPerturbation p = 21.4 \<and> auroraIntensity p = 3043 / 18000)"
proof -
  have same: "infer \<lparr>horizonMinutes = h, sequence = Some []\<rparr> now
     = infer \<lparr>horizonMinutes = h, sequence = Some [infer_default_point]\<rparr> now"
    by (simp add: infer_def infer_default_point_def empty_point_def group_get_def dict_get_def)
  have nonempty: "predictions (infer \<lparr>horizonMinutes = h, sequence = Some []\<rparr> now) \<noteq> []"
  proof -
    have "0 < length (predictions (infer \<lparr>horizonMinutes = h, sequence = Some []\<rparr> now))"
      by (simp add: length_infer_predictions)
    then show ?thesis by simp
  qed
  have vals: "geomagneticPerturbation p = 21.4 \<and> auroraIntensity p = 3043 / 18000"
    if "p \<in> set (predictions (infer \<lparr>horizonMinutes = h, sequence = Some []\<rparr> now))" for p
  proof -
    have "predictions (infer \<lparr>horizonMinutes = h, sequence = Some []\<rparr> now)
          = map (prediction_at 400 5 0 2 0 now)
              (py_range 0 (max 1 (min 24 (payload_horizon \<lparr>horizonMinutes = h, sequence = Some []\<rparr> div 5))))"
      by (simp add: infer_predictions payload_latest_def empty_point_def group_get_def
          dict_get_def)
    with that obtain i where "p = prediction_at 400 5 0 2 0 now i"
      by auto
    then show ?thesis
      by (simp add: prediction_at_def)
  qed
  show ?thesis using same nonempty vals by blast
qed

text \<open>One run of the amended claim C1: the first of the twelve predictions for 60 minutes.\<close>

theorem C1_empty_sequence_defaults_witness:
  "geomagneticPerturbation (predictions (infer \<lparr>horizonMinutes = Some 60, sequence = Some []\<rparr> 0) ! 0)
     = 21.4
   \<and> auroraIntensity (predictions (infer \<lparr>horizonMinutes = Some 60, sequence = Some []\<rparr> 0) ! 0)
     = 3043 / 18000"
proof -
  have "0 < length (predictions (infer \<lparr>horizonMinutes = Some 60, sequence = Some []\<rparr> 0))"
    by (simp add: length_infer_predictions)
  then have "predictions (infer \<lparr>horizonMinutes = Some 60, sequence = Some []\<rparr> 0) ! 0
       \<in> set (predictions (infer \<lparr>horizonMinutes = Some 60, sequence = Some []\<rparr> 0))"
    by (rule nth_mem)
  then show ?thesis
    using C1_empty_sequence_defaults [of "Some 60" 0] by blast
qed

text \<open>
  Claim C1 as stated fails: on the empty sequence the perturbation is 21.4, whereas the
  all-default point of the data model, every field 0.0, gives -16.8.
\<close>

theorem C1_counterexample:
  "geomagneticPerturbation
     (predictions (infer \<lparr>horizonMinutes = Some 60, sequence = Some []\<rparr> 0) ! 0) = 21.4
   \<and> geomagneticPerturbation
     (predictions (infer \<lparr>horizonMinutes = Some 60, sequence = Some [zero_point]\<rparr> 0) ! 0) = - 16.8
   \<and> infer \<lparr>horizonMinutes = Some 60, sequence = Some []\<rparr> 0
       \<noteq> infer \<lparr>horizonMinutes = Some 60, sequence = Some [zero_point]\<rparr> 0"
proof -
  have a: "geomagneticPerturbation
     (predictions (infer \<lparr>horizonMinutes = Some 60, sequence = Some []\<rparr> 0) ! 0) = 21.4"
    by (simp add: nth_infer_predictions length_infer_predictions prediction_at_def
        payload_latest_def empty_point_def group_get_def dict_get_def)
  have b: "geomagneticPerturbation
     (predictions (infer \<lparr>horizonMinutes = Some 60, sequence = Some [zero_point]\<rparr> 0) ! 0) = - 16.8"
    by (simp add: nth_infer_predictions length_infer_predictions prediction_at_def
        payload_latest_def zero_point_def group_get_def dict_get_def)
  have "infer \<lparr>horizonMinutes = Some 60, sequence = Some []\<rparr> 0
       \<noteq> infer \<lparr>horizonMinutes = Some 60, sequence = Some [zero_point]\<rparr> 0"
  proof
    assume "infer \<lparr>horizonMinutes = Some 60, sequence = Some []\<rparr> 0
       = infer \<lparr>horizonMinutes = Some 60, sequence = Some [zero_point]\<rparr> 0"
    then have "geomagneticPerturbation
        (predictions (infer \<lparr>horizonMinutes = Some 60, sequence = Some []\<rparr> 0) ! 0)
      = geomagneticPerturbation
        (predictions (infer \<lparr>horizonMinutes = Some 60, sequence = Some [zero_point]\<rparr> 0) ! 0)"
      by simp
    then show False by (simp add: a b)
  qed
  then show ?thesis using a b by blast
qed

section \<open>Properties of the baseline trainer\<close>







section \<open>Properties of the model registry and of the train command\<close>

text \<open>
  A registry file that is not JSON makes the read step, and so the append, raise; the
  file is left as it was.
\<close>

lemma update_registry_not_json: "update_registry (Some NotJson) r = Inl JSONDecodeError"
  by (simp add: update_registry_def read_registry_def)

lemma read_registry_holding: "read_registry (registry_holding ms) = Inr (registry_doc ms)"
  by (simp add: read_registry_def registry_holding_def)

lemma update_registry_holding:
  "update_registry (registry_holding ms) r = Inr (registry_holding (ms @ [r]))"
  by (simp add: update_registry_def read_registry_def registry_holding_def registry_doc_def)

lemma update_registry_missing: "update_registry None r = Inr (registry_holding [r])"
  by (simp add: update_registry_def read_registry_def registry_holding_def registry_doc_def)

lemma registry_well_formed_cases:
  "registry_well_formed file \<Longrightarrow> file = None \<or> (\<exists>ms. file = registry_holding ms)"
  by (cases "file" rule: registry_well_formed.cases)
     (simp_all add: registry_holding_def registry_doc_def)

text \<open>
  Claim C8.  Reading a missing registry file gives \<open>{models: []}\<close>, and reading never
  fails on a registry file that is missing or holds a document \<open>{models: [...]}\<close>.
  An append to such a file puts the record at the end of the list it read and rewrites
  the whole document.  So, from a missing file, appending \<open>r1\<close> and then \<open>r2\<close>
  succeeds, and reading the file afterwards gives the models list \<open>[r1, r2]\<close>.
\<close>

theorem C8_registry_append:
  "read_registry None = Inr (registry_doc [])
   \<and> (registry_well_formed file \<longrightarrow>
        (\<exists>ms. read_registry file = Inr (registry_doc ms)
            \<and> update_registry file r = Inr (registry_holding (ms @ [r]))))
   \<and> (\<exists>file1 file2. update_registry None r1 = Inr file1
        \<and> update_registry file1 r2 = Inr file2
        \<and> read_registry file2 = Inr (registry_doc [r1, r2]))"
proof (intro conjI impI)
  show "read_registry None = Inr (registry_doc [])"
    by (simp add: read_registry_def registry_doc_def)
next
  assume "registry_well_formed file"
  then consider "file = None" | ms where "file = registry_holding ms"
    using registry_well_formed_cases by blast
  then show "\<exists>ms. read_registry file = Inr (registry_doc ms)
            \<and> update_registry file r = Inr (registry_holding (ms @ [r]))"
  proof cases
    case 1
    then have "read_registry file = Inr (registry_doc [])
        \<and> update_registry file r = Inr (registry_holding ([] @ [r]))"
      by (simp add: update_registry_missing) (simp add: read_registry_def registry_doc_def)
    then show ?thesis by blast
  next
    case 2
    then have "read_registry file = Inr (registry_doc ms)
        \<and> update_registry file r = Inr (registry_holding (ms @ [r]))"
      by (simp add: read_registry_holding update_registry_holding)
    then show ?thesis by blast
  qed
next
  have "update_registry None r1 = Inr (registry_holding [r1])"
    by (rule update_registry_missing)
  moreover have "update_registry (registry_holding [r1]) r2 = Inr (registry_holding [r1, r2])"
    using update_registry_holding [of "[r1]" r2] by simp
  moreover have "read_registry (registry_holding [r1, r2]) = Inr (registry_doc [r1, r2])"
    by (rule read_registry_holding)
  ultimately show "\<exists>file1 file2. update_registry None r1 = Inr file1
        \<and> update_registry file1 r2 = Inr file2
        \<and> read_registry file2 = Inr (registry_doc [r1, r2])"
    by blast
qed

text \<open>One run of claim C8: an append to a registry that holds one record.\<close>

theorem C8_registry_append_witness:
  "update_registry (Some (Json (Object (Some (ModelsList [sample_record ''v1''])))))
     (sample_record ''v2'')
   = Inr (Some (Json (Object (Some (ModelsList [sample_record ''v1'', sample_record ''v2''])))))"
proof -
  have "registry_well_formed (Some (Json (Object (Some (ModelsList [sample_record ''v1''])))))"
    by simp
  then show ?thesis
    using C8_registry_append [of "Some (Json (Object (Some (ModelsList [sample_record ''v1'']))))"
        "sample_record ''v2''"]
    by (auto simp add: read_registry_def registry_doc_def registry_holding_def)
qed

lemma load_jsonl_loop_skip_blank:
  "load_jsonl_loop loads lines rows
     = load_jsonl_loop loads (filter (\<lambda>l. strip l \<noteq> []) lines) rows"
  by (induction lines arbitrary: rows) (simp_all add: Let_def split: sum.split)

lemma train_main_missing_dataset:
  assumes "dataset_file files = None"
  shows "train_main loads args now files =
     (case update_registry (registry_file files)
             \<lparr>version = arg_model_version args, trained_at = now, epochs = arg_epochs args,
              metrics = no_data_metrics, dataset = arg_dataset args, status = ''ready''\<rparr> of
        Inl err \<Rightarrow> Inl err
      | Inr file' \<Rightarrow>
          Inr (files\<lparr>registry_file := file'\<rparr>,
               \<lparr>version = arg_model_version args, trained_at = now, epochs = arg_epochs args,
                metrics = no_data_metrics, dataset = arg_dataset args, status = ''ready''\<rparr>))"
  using assms
  by (simp add: train_main_def load_jsonl_def baseline_train_def no_data_metrics_def Let_def
      split: sum.split)

text \<open>
  Claim C10.  \<open>load_jsonl\<close> returns the empty list when the dataset file does not
  exist, and the lines that are blank after \<open>strip\<close> do not contribute to its
  result.  When the dataset file is missing and the registry file is missing or holds
  a document \<open>{models: [...]}\<close>, the train command returns without an error: the
  registry afterwards holds the models it held before followed by exactly one new
  record, whose status is \<open>ready\<close> and whose metrics are the sentinel
  \<open>{loss: null, samples: 0, message: "No data"}\<close>.
\<close>

theorem C10_missing_dataset:
  "load_jsonl loads None = Inr []
   \<and> load_jsonl loads (Some lines) = load_jsonl loads (Some (filter (\<lambda>l. strip l \<noteq> []) lines))
   \<and> (dataset_file files = None \<and> registry_well_formed (registry_file files) \<longrightarrow>
        (\<exists>ms. read_registry (registry_file files) = Inr (registry_doc ms)
           \<and> train_main loads' args now files =
               Inr (files\<lparr>registry_file := registry_holding
                      (ms @ [\<lparr>version = arg_model_version args, trained_at = now,
                               epochs = arg_epochs args,
                               metrics = \<lparr>loss = None, samples = 0, message = Some ''No data'',
                                          predict_mean = None\<rparr>,
                               dataset = arg_dataset args, status = ''ready''\<rparr>])\<rparr>,
                    \<lparr>version = arg_model_version args, trained_at = now,
                     epochs = arg_epochs args,
                     metrics = \<lparr>loss = None, samples = 0, message = Some ''No data'',
                                predict_mean = None\<rparr>,
                     dataset = arg_dataset args, status = ''ready''\<rparr>)))"
proof (intro conjI impI)
  show "load_jsonl loads None = Inr []"
    by (simp add: load_jsonl_def)
next
  show "load_jsonl loads (Some lines)
        = load_jsonl loads (Some (filter (\<lambda>l. strip l \<noteq> []) lines))"
    using load_jsonl_loop_skip_blank [of loads lines "[]"] by (simp add: load_jsonl_def)
next
  let ?entry = "\<lparr>version = arg_model_version args, trained_at = now,
                  epochs = arg_epochs args,
                  metrics = \<lparr>loss = None, samples = 0, message = Some ''No data'',
                             predict_mean = None\<rparr>,
                  dataset = arg_dataset args, status = ''ready''\<rparr>"
  assume h: "dataset_file files = None \<and> registry_well_formed (registry_file files)"
  then have "registry_well_formed (registry_file files)" by simp
  then consider "registry_file files = None" | ms where "registry_file files = registry_holding ms"
    using registry_well_formed_cases [of "registry_file files"] by auto
  then show "\<exists>ms. read_registry (registry_file files) = Inr (registry_doc ms)
           \<and> train_main loads' args now files =
               Inr (files\<lparr>registry_file := registry_holding (ms @ [?entry])\<rparr>, ?entry)"
  proof cases
    case 1
    have "read_registry (registry_file files) = Inr (registry_doc [])"
      by (simp add: 1 read_registry_def registry_doc_def)
    moreover have "train_main loads' args now files =
               Inr (files\<lparr>registry_file := registry_holding ([] @ [?entry])\<rparr>, ?entry)"
      using h by (simp add: train_main_missing_dataset 1 update_registry_missing
          no_data_metrics_def)
    ultimately show ?thesis by blast
  next
    case 2
    have "read_registry (registry_file files) = Inr (registry_doc ms)"
      by (simp add: 2 read_registry_holding)
    moreover have "train_main loads' args now files =
               Inr (files\<lparr>registry_file := registry_holding (ms @ [?entry])\<rparr>, ?entry)"
      using h by (simp add: train_main_missing_dataset 2 update_registry_holding
          no_data_metrics_def)
    ultimately show ?thesis by blast
  qed
qed

text \<open>
  One run of claim C10: no dataset file and no registry file, and a dataset file of three
  blank lines.
\<close>

theorem C10_missing_dataset_witness:
  "train_main (\<lambda>line. Inl JSONDecodeError)
     \<lparr>arg_dataset = ''ml/data/train_dataset.jsonl'', arg_registry = ''ml/models/registry.json'',
      arg_model_version = ''unet-baseline-v1'', arg_epochs = 20\<rparr> 0
     \<lparr>dataset_file = None, registry_file = None\<rparr>
   = Inr (\<lparr>dataset_file = None,
           registry_file = Some (Json (Object (Some (ModelsList
             [\<lparr>version = ''unet-baseline-v1'', trained_at = 0, epochs = 20,
               metrics = \<lparr>loss = None, samples = 0, message = Some ''No data'',
                          predict_mean = None\<rparr>,
               dataset = ''ml/data/train_dataset.jsonl'', status = ''ready''\<rparr>]))))\<rparr>,
          \<lparr>version = ''unet-baseline-v1'', trained_at = 0, epochs = 20,
           metrics = \<lparr>loss = None, samples = 0, message = Some ''No data'',
                      predict_mean = None\<rparr>,
           dataset = ''ml/data/train_dataset.jsonl'', status = ''ready''\<rparr>)
   \<and> load_jsonl (\<lambda>line. Inl JSONDecodeError) (Some [[], [CHR 0x0A], [CHR '' '', CHR 0x0A]])
       = (Inr [] :: WindowExample list result)"
  using C10_missing_dataset [of "\<lambda>line. Inl JSONDecodeError :: WindowExample result"
      "[[], [CHR 0x0A], [CHR '' '', CHR 0x0A]]"
      "\<lparr>dataset_file = None, registry_file = None\<rparr>"
      "\<lambda>line. Inl JSONDecodeError"
      "\<lparr>arg_dataset = ''ml/data/train_dataset.jsonl'', arg_registry = ''ml/models/registry.json'',
      arg_model_version = ''unet-baseline-v1'', arg_epochs = 20\<rparr>" 0]
  by (auto simp add: read_registry_def registry_doc_def registry_holding_def strip_def
      is_space_def load_jsonl_def)

end
